theory Spec2Isabelle
  imports Complex_Main
begin

section \<open>Python values used by the bill extractor\<close>

subsection \<open>Floating-point numbers\<close>

text \<open>
  A Python \<^verbatim>\<open>float\<close> is an IEEE binary64 number. A finite one is kept as the exact
  rational it denotes; the two infinities and NaN are separate values. The sign of
  zero is not tracked (\<^verbatim>\<open>-0.0 == 0.0\<close> in Python).
\<close>

datatype pyfloat = Fin rat | PInf | NInf | NaN

fun bit_length :: "nat \<Rightarrow> nat" where
  "bit_length n = (if n = 0 then 0 else Suc (bit_length (n div 2)))"

declare bit_length.simps [simp del]

definition pow2 :: "int \<Rightarrow> rat" where
  "pow2 e = (if 0 \<le> e then 2 ^ nat e else 1 / 2 ^ nat (- e))"

text \<open>The binary exponent of a positive rational: the \<open>e\<close> with \<open>2^e \<le> q < 2^(e+1)\<close>.\<close>

definition ilog2 :: "rat \<Rightarrow> int" where
  "ilog2 q = (case quotient_of q of (a, b) \<Rightarrow>
     (let d = int (bit_length (nat a)) - int (bit_length (nat b))
      in if pow2 d \<le> q then d else d - 1))"

definition round_half_even :: "rat \<Rightarrow> int" where
  "round_half_even q =
     (let f = \<lfloor>q\<rfloor>; r = q - of_int f
      in if r < 1 / 2 then f
         else if 1 / 2 < r then f + 1
         else if even f then f else f + 1)"

text \<open>
  Rounding of an exact value to binary64, to nearest with ties to even: 53 significant
  bits, a smallest spacing of \<open>2^-1074\<close> (subnormals), and overflow to an infinity
  once the rounded magnitude reaches \<open>2^1024\<close>.
\<close>

definition to_double :: "rat \<Rightarrow> pyfloat" where
  "to_double q =
     (if q = 0 then Fin 0
      else
        (let u = max (ilog2 \<bar>q\<bar> - 52) (- 1074);
             v = of_int (round_half_even (q / pow2 u)) * pow2 u
         in if 2 ^ 1024 \<le> \<bar>v\<bar> then (if 0 < q then PInf else NInf) else Fin v))"

text \<open>Python's \<^verbatim>\<open>a + b\<close> on two floats.\<close>

fun float_add :: "pyfloat \<Rightarrow> pyfloat \<Rightarrow> pyfloat" where
  "float_add (Fin a) (Fin b) = to_double (a + b)"
| "float_add NaN _ = NaN"
| "float_add _ NaN = NaN"
| "float_add PInf NInf = NaN"
| "float_add NInf PInf = NaN"
| "float_add PInf _ = PInf"
| "float_add _ PInf = PInf"
| "float_add NInf _ = NInf"
| "float_add _ NInf = NInf"

text \<open>
  \<^verbatim>\<open>sum(xs)\<close> over floats: it starts from the integer 0 and adds from left to right, each
  addition rounded. (The sum of no item is the integer 0, which the float field of
  the response model stores as 0.0. CPython 3.12 and later compensate the rounding
  errors of the additions; the two agree on a single item and wherever no addition
  rounds, and the theorems below do not depend on how a sum of several items is
  rounded.)
\<close>

definition py_sum :: "pyfloat list \<Rightarrow> pyfloat" where
  "py_sum xs = foldl float_add (Fin 0) xs"

text \<open>
  \<^verbatim>\<open>round(x, 2)\<close>: the exact value of \<open>x\<close> is rounded to a multiple of 1/100, a tie going
  to the even multiple, and the result is the binary64 number nearest to that decimal.
  Infinities and NaN are returned as they are.
\<close>

definition py_round2 :: "pyfloat \<Rightarrow> pyfloat" where
  "py_round2 x =
     (case x of
        Fin q \<Rightarrow> to_double (of_int (round_half_even (q * 100)) / 100)
      | _ \<Rightarrow> x)"

subsection \<open>JSON trees and exceptions\<close>

text \<open>
  What \<^verbatim>\<open>json.loads\<close> returns. A dict is the list of its entries in insertion order
  (the keys of a dict are distinct); lookup takes the entry of the key.
\<close>

datatype json =
    JNull
  | JBool bool
  | JInt int
  | JFloat pyfloat
  | JStr string
  | JList "json list"
  | JObj "(string \<times> json) list"

text \<open>
  An exception is either the \<^verbatim>\<open>HTTPException\<close> the helper functions raise (status code
  and detail) or any other exception, kept as its class name and the text \<^verbatim>\<open>str(e)\<close>.
\<close>

datatype exn =
    HTTPException nat string
  | Exception string string

fun type_name :: "json \<Rightarrow> string" where
  "type_name JNull = ''NoneType''"
| "type_name (JBool _) = ''bool''"
| "type_name (JInt _) = ''int''"
| "type_name (JFloat _) = ''float''"
| "type_name (JStr _) = ''str''"
| "type_name (JList _) = ''list''"
| "type_name (JObj _) = ''dict''"

definition quoted :: "string \<Rightarrow> string" where
  "quoted s = CHR 0x27 # s @ [CHR 0x27]"

text \<open>
  The behaviour of the Python runtime and of pydantic that the source relies on but
  does not contain is a parameter of the model:
  \<^item> \<open>float_of_str\<close>: \<^verbatim>\<open>float(s)\<close> on a text, \<open>None\<close> when it raises \<^verbatim>\<open>ValueError\<close>;
  \<^item> \<open>repr_of\<close>: \<^verbatim>\<open>repr(v)\<close>, which is also \<^verbatim>\<open>str(v)\<close> for a value that is not a text;
  \<^item> \<open>num_to_str\<close>: what pydantic makes of a number or boolean given to a \<^verbatim>\<open>str\<close> field
    (\<open>None\<close> when it is refused, as pydantic 2 does; pydantic 1 converts it).
\<close>

record pylib =
  float_of_str :: "string \<Rightarrow> pyfloat option"
  repr_of :: "json \<Rightarrow> string"
  num_to_str :: "json \<Rightarrow> string option"

text \<open>\<^verbatim>\<open>v.get(k, d)\<close>: only a dict has the method.\<close>

definition dict_get :: "json \<Rightarrow> string \<Rightarrow> json \<Rightarrow> exn + json" where
  "dict_get v k d =
     (case v of
        JObj kvs \<Rightarrow> Inr (case map_of kvs k of Some x \<Rightarrow> x | None \<Rightarrow> d)
      | _ \<Rightarrow> Inl (Exception ''AttributeError''
                 (quoted (type_name v) @ '' object has no attribute '' @ quoted ''get'')))"

text \<open>
  \<^verbatim>\<open>for x in v\<close>: a list gives its elements, a dict its keys, a text its characters;
  nothing else is iterable.
\<close>

definition py_iter :: "json \<Rightarrow> exn + json list" where
  "py_iter v =
     (case v of
        JList xs \<Rightarrow> Inr xs
      | JObj kvs \<Rightarrow> Inr (map (\<lambda>kv. JStr (fst kv)) kvs)
      | JStr s \<Rightarrow> Inr (map (\<lambda>c. JStr [c]) s)
      | _ \<Rightarrow> Inl (Exception ''TypeError'' (quoted (type_name v) @ '' object is not iterable'')))"

definition float_of_int :: "int \<Rightarrow> exn + pyfloat" where
  "float_of_int n =
     (case to_double (of_int n) of
        Fin v \<Rightarrow> Inr (Fin v)
      | _ \<Rightarrow> Inl (Exception ''OverflowError'' ''int too large to convert to float''))"

text \<open>\<^verbatim>\<open>float(v)\<close>.\<close>

definition py_float :: "pylib \<Rightarrow> json \<Rightarrow> exn + pyfloat" where
  "py_float L v =
     (case v of
        JBool b \<Rightarrow> Inr (Fin (if b then 1 else 0))
      | JInt n \<Rightarrow> float_of_int n
      | JFloat f \<Rightarrow> Inr f
      | JStr s \<Rightarrow>
          (case float_of_str L s of
             Some f \<Rightarrow> Inr f
           | None \<Rightarrow> Inl (Exception ''ValueError''
                        (''could not convert string to float: '' @ repr_of L (JStr s))))
      | _ \<Rightarrow> Inl (Exception ''TypeError''
                 (''float() argument must be a string or a real number, not ''
                  @ quoted (type_name v))))"

text \<open>\<^verbatim>\<open>str(v)\<close>.\<close>

definition py_str :: "pylib \<Rightarrow> json \<Rightarrow> string" where
  "py_str L v = (case v of JStr s \<Rightarrow> s | _ \<Rightarrow> repr_of L v)"

section \<open>The pydantic models\<close>

record DocumentRequest =
  document :: string

record BillItem =
  item_name :: string
  item_amount :: pyfloat
  item_rate :: "pyfloat option"
  item_quantity :: "pyfloat option"

record PageLineItems =
  page_no :: string
  bill_items :: "BillItem list"

record ExtractionData =
  pagewise_line_items :: "PageLineItems list"
  total_item_count :: int
  reconciled_amount :: pyfloat

record APIResponse =
  is_success :: bool
  data :: "ExtractionData option"
  error :: "string option"

text \<open>
  Validation of the \<^verbatim>\<open>str\<close> field \<^verbatim>\<open>item_name\<close>: a text passes; \<^verbatim>\<open>None\<close>, a list and a dict
  are refused; a number or boolean goes by the pydantic version.
\<close>

definition validate_str :: "pylib \<Rightarrow> json \<Rightarrow> string option" where
  "validate_str L v =
     (case v of
        JStr s \<Rightarrow> Some s
      | JNull \<Rightarrow> None
      | JList _ \<Rightarrow> None
      | JObj _ \<Rightarrow> None
      | _ \<Rightarrow> num_to_str L v)"

text \<open>
  The constructor call \<^verbatim>\<open>BillItem(item_name=n, item_amount=a, item_rate=r,
  item_quantity=q)\<close> with three floats: only the name can fail validation. The text
  of the \<^verbatim>\<open>ValidationError\<close> is cut to its first line.
\<close>

definition new_BillItem ::
  "pylib \<Rightarrow> json \<Rightarrow> pyfloat \<Rightarrow> pyfloat \<Rightarrow> pyfloat \<Rightarrow> exn + BillItem" where
  "new_BillItem L n a r q =
     (case validate_str L n of
        None \<Rightarrow> Inl (Exception ''ValidationError'' ''1 validation error for BillItem'')
      | Some s \<Rightarrow>
          Inr \<lparr>item_name = s, item_amount = a, item_rate = Some r, item_quantity = Some q\<rparr>)"

section \<open>Helper functions\<close>

text \<open>
  The outside world of one request: \<open>fetch url\<close> is the outcome of the HTTP request,
  the status check and the image decoding, and \<open>generate img\<close> the outcome of the
  model call followed by \<^verbatim>\<open>json.loads\<close>. \<open>Inl m\<close> is an exception with \<^verbatim>\<open>str(e) = m\<close>.
\<close>

record 'img world =
  fetch :: "string \<Rightarrow> string + 'img"
  generate :: "'img \<Rightarrow> string + json"

definition download_image :: "'img world \<Rightarrow> string \<Rightarrow> exn + 'img" where
  "download_image W url =
     (case fetch W url of
        Inr img \<Rightarrow> Inr img
      | Inl m \<Rightarrow> Inl (HTTPException 400 (''Failed to download image: '' @ m)))"

definition get_gemini_extraction :: "'img world \<Rightarrow> 'img \<Rightarrow> exn + json" where
  "get_gemini_extraction W img =
     (case generate W img of
        Inr raw \<Rightarrow> Inr raw
      | Inl m \<Rightarrow> Inl (HTTPException 500 ''Failed to process image with AI model.''))"

section \<open>The endpoint\<close>

text \<open>The body of the inner loop: one item of \<^verbatim>\<open>bill_items\<close> becomes a \<^verbatim>\<open>BillItem\<close>.\<close>

definition validated_item :: "pylib \<Rightarrow> json \<Rightarrow> exn + BillItem" where
  "validated_item L item =
     (case dict_get item ''item_name'' (JStr ''Unknown'') of
        Inl e \<Rightarrow> Inl e
      | Inr n \<Rightarrow>
     (case dict_get item ''item_amount'' (JInt 0) of
        Inl e \<Rightarrow> Inl e
      | Inr av \<Rightarrow>
     (case py_float L av of
        Inl e \<Rightarrow> Inl e
      | Inr a \<Rightarrow>
     (case dict_get item ''item_rate'' (JInt 0) of
        Inl e \<Rightarrow> Inl e
      | Inr rv \<Rightarrow>
     (case py_float L rv of
        Inl e \<Rightarrow> Inl e
      | Inr r \<Rightarrow>
     (case dict_get item ''item_quantity'' (JInt 1) of
        Inl e \<Rightarrow> Inl e
      | Inr qv \<Rightarrow>
     (case py_float L qv of
        Inl e \<Rightarrow> Inl e
      | Inr q \<Rightarrow> new_BillItem L n a r q)))))))"

text \<open>
  The inner loop over the items of a page. The state is the pair of lists the
  source appends to: \<open>p_items\<close> and \<open>all_items\<close>.
\<close>

fun item_loop ::
  "pylib \<Rightarrow> json list \<Rightarrow> BillItem list \<times> BillItem list \<Rightarrow>
   exn + (BillItem list \<times> BillItem list)" where
  "item_loop L [] (p_items, all_items) = Inr (p_items, all_items)"
| "item_loop L (item # rest) (p_items, all_items) =
     (case validated_item L item of
        Inl e \<Rightarrow> Inl e
      | Inr b \<Rightarrow> item_loop L rest (p_items @ [b], all_items @ [b]))"

text \<open>The outer loop over the pages; the state is \<open>all_items\<close> and \<open>pagewise_items\<close>.\<close>

fun page_loop ::
  "pylib \<Rightarrow> json list \<Rightarrow> BillItem list \<times> PageLineItems list \<Rightarrow>
   exn + (BillItem list \<times> PageLineItems list)" where
  "page_loop L [] (all_items, pagewise_items) = Inr (all_items, pagewise_items)"
| "page_loop L (page # rest) (all_items, pagewise_items) =
     (case dict_get page ''bill_items'' (JList []) of
        Inl e \<Rightarrow> Inl e
      | Inr bi \<Rightarrow>
     (case py_iter bi of
        Inl e \<Rightarrow> Inl e
      | Inr items \<Rightarrow>
     (case item_loop L items ([], all_items) of
        Inl e \<Rightarrow> Inl e
      | Inr (p_items, all_items') \<Rightarrow>
     (case dict_get page ''page_no'' (JStr ''1'') of
        Inl e \<Rightarrow> Inl e
      | Inr pn \<Rightarrow>
          page_loop L rest
            (all_items',
             pagewise_items @ [\<lparr>page_no = py_str L pn, bill_items = p_items\<rparr>])))))"

text \<open>
  Steps 3 and 4 of \<^verbatim>\<open>extract_bill_data\<close>: post-processing of the raw tree, the totals
  and the response data.
\<close>

definition reconcile :: "pylib \<Rightarrow> json \<Rightarrow> exn + ExtractionData" where
  "reconcile L raw_data =
     (case dict_get raw_data ''pagewise_line_items'' (JList []) of
        Inl e \<Rightarrow> Inl e
      | Inr pl \<Rightarrow>
     (case py_iter pl of
        Inl e \<Rightarrow> Inl e
      | Inr pages \<Rightarrow>
     (case page_loop L pages ([], []) of
        Inl e \<Rightarrow> Inl e
      | Inr (all_items, pagewise_items) \<Rightarrow>
          (let total_count = int (length all_items);
               calculated_total = py_sum (map item_amount all_items);
               calculated_total = py_round2 calculated_total
           in Inr \<lparr>pagewise_line_items = pagewise_items,
                    total_item_count = total_count,
                    reconciled_amount = calculated_total\<rparr>))))"

text \<open>Steps 1 to 4, the body of the \<^verbatim>\<open>try\<close> block.\<close>

definition pipeline :: "pylib \<Rightarrow> 'img world \<Rightarrow> DocumentRequest \<Rightarrow> exn + ExtractionData" where
  "pipeline L W request =
     (case download_image W (document request) of
        Inl e \<Rightarrow> Inl e
      | Inr img \<Rightarrow>
     (case get_gemini_extraction W img of
        Inl e \<Rightarrow> Inl e
      | Inr raw_data \<Rightarrow> reconcile L raw_data))"

definition extract_bill_data :: "pylib \<Rightarrow> 'img world \<Rightarrow> DocumentRequest \<Rightarrow> APIResponse" where
  "extract_bill_data L W request =
     (case pipeline L W request of
        Inr response_data \<Rightarrow> \<lparr>is_success = True, data = Some response_data, error = None\<rparr>
      | Inl (HTTPException code detail) \<Rightarrow> \<lparr>is_success = False, data = None, error = Some detail\<rparr>
      | Inl (Exception cls msg) \<Rightarrow> \<lparr>is_success = False, data = None, error = Some msg\<rparr>)"

section \<open>What the loops compute\<close>

text \<open>
  The two loops without their accumulators: the items of one page, one page, and
  the list of pages, each stopping at the first exception. They are used to state
  what \<open>item_loop\<close> and \<open>page_loop\<close> return.
\<close>

fun sanitize_items :: "pylib \<Rightarrow> json list \<Rightarrow> exn + BillItem list" where
  "sanitize_items L [] = Inr []"
| "sanitize_items L (item # rest) =
     (case validated_item L item of
        Inl e \<Rightarrow> Inl e
      | Inr b \<Rightarrow>
          (case sanitize_items L rest of
             Inl e \<Rightarrow> Inl e
           | Inr bs \<Rightarrow> Inr (b # bs)))"

definition sanitize_page :: "pylib \<Rightarrow> json \<Rightarrow> exn + PageLineItems" where
  "sanitize_page L page =
     (case dict_get page ''bill_items'' (JList []) of
        Inl e \<Rightarrow> Inl e
      | Inr bi \<Rightarrow>
     (case py_iter bi of
        Inl e \<Rightarrow> Inl e
      | Inr items \<Rightarrow>
     (case sanitize_items L items of
        Inl e \<Rightarrow> Inl e
      | Inr bs \<Rightarrow>
     (case dict_get page ''page_no'' (JStr ''1'') of
        Inl e \<Rightarrow> Inl e
      | Inr pn \<Rightarrow> Inr \<lparr>page_no = py_str L pn, bill_items = bs\<rparr>))))"

fun sanitize_pages :: "pylib \<Rightarrow> json list \<Rightarrow> exn + PageLineItems list" where
  "sanitize_pages L [] = Inr []"
| "sanitize_pages L (page # rest) =
     (case sanitize_page L page of
        Inl e \<Rightarrow> Inl e
      | Inr p \<Rightarrow>
          (case sanitize_pages L rest of
             Inl e \<Rightarrow> Inl e
           | Inr ps \<Rightarrow> Inr (p # ps)))"

text \<open>
  The pages the outer loop visits in a raw tree, and the items the inner loop visits
  in a page (none where the lookup or the iteration raises).
\<close>

definition raw_pages :: "json \<Rightarrow> json list" where
  "raw_pages raw_data =
     (case dict_get raw_data ''pagewise_line_items'' (JList []) of
        Inl e \<Rightarrow> []
      | Inr pl \<Rightarrow> (case py_iter pl of Inl e \<Rightarrow> [] | Inr pages \<Rightarrow> pages))"

definition page_raw_items :: "json \<Rightarrow> json list" where
  "page_raw_items page =
     (case dict_get page ''bill_items'' (JList []) of
        Inl e \<Rightarrow> []
      | Inr bi \<Rightarrow> (case py_iter bi of Inl e \<Rightarrow> [] | Inr items \<Rightarrow> items))"

definition raw_items :: "json \<Rightarrow> json list" where
  "raw_items raw_data = concat (map page_raw_items (raw_pages raw_data))"

definition all_bill_items :: "ExtractionData \<Rightarrow> BillItem list" where
  "all_bill_items d = concat (map bill_items (pagewise_line_items d))"

section \<open>A runtime for evaluation\<close>

text \<open>
  An instance of the runtime parameter, for evaluating the model on concrete inputs:
  \<^verbatim>\<open>float(s)\<close> on ASCII text, after CPython: underscores only between digits, white
  space stripped at both ends, an optional sign, then \<^verbatim>\<open>inf\<close>, \<^verbatim>\<open>infinity\<close> or \<^verbatim>\<open>nan\<close> in
  any case, or a decimal number with an optional exponent; the value is rounded to
  binary64.
\<close>

definition is_space :: "char \<Rightarrow> bool" where
  "is_space c = (let n = (of_char c :: nat) in (9 \<le> n \<and> n \<le> 13) \<or> (28 \<le> n \<and> n \<le> 32))"

definition is_digit :: "char \<Rightarrow> bool" where
  "is_digit c = (let n = (of_char c :: nat) in 48 \<le> n \<and> n \<le> 57)"

definition lower :: "char \<Rightarrow> char" where
  "lower c = (let n = (of_char c :: nat) in if 65 \<le> n \<and> n \<le> 90 then char_of (n + 32) else c)"

definition nat_of_digits :: "string \<Rightarrow> nat" where
  "nat_of_digits ds = foldl (\<lambda>n c. 10 * n + (of_char c - 48)) 0 ds"

definition pow10 :: "int \<Rightarrow> rat" where
  "pow10 e = (if 0 \<le> e then 10 ^ nat e else 1 / 10 ^ nat (- e))"

fun drop_underscores :: "char option \<Rightarrow> string \<Rightarrow> string option" where
  "drop_underscores prev [] = (if prev = Some CHR ''_'' then None else Some [])"
| "drop_underscores prev (c # cs) =
     (if c = CHR ''_'' then
        (case prev of
           Some p \<Rightarrow> if is_digit p then drop_underscores (Some c) cs else None
         | None \<Rightarrow> None)
      else if prev = Some CHR ''_'' \<and> \<not> is_digit c then None
      else map_option ((#) c) (drop_underscores (Some c) cs))"

definition strip :: "string \<Rightarrow> string" where
  "strip s = rev (dropWhile is_space (rev (dropWhile is_space s)))"

definition parse_decimal :: "string \<Rightarrow> pyfloat option" where
  "parse_decimal s =
     (let ip = takeWhile is_digit s;
          r1 = dropWhile is_digit s;
          dot = (r1 \<noteq> [] \<and> hd r1 = CHR ''.'');
          fp = (if dot then takeWhile is_digit (tl r1) else []);
          r2 = (if dot then dropWhile is_digit (tl r1) else r1);
          m = (of_nat (nat_of_digits (ip @ fp)) :: rat);
          k = int (length fp)
      in if ip = [] \<and> fp = [] then None
         else
           (case r2 of
              [] \<Rightarrow> Some (to_double (m * pow10 (- k)))
            | c # r3 \<Rightarrow>
                if c = CHR ''e'' \<or> c = CHR ''E'' then
                  (let neg = (r3 \<noteq> [] \<and> hd r3 = CHR ''-'');
                       r4 = (if r3 \<noteq> [] \<and> (hd r3 = CHR ''+'' \<or> hd r3 = CHR ''-'') then tl r3 else r3);
                       x = int (nat_of_digits r4)
                   in if r4 \<noteq> [] \<and> list_all is_digit r4
                      then Some (to_double (m * pow10 ((if neg then - x else x) - k)))
                      else None)
                else None))"

definition parse_unsigned :: "string \<Rightarrow> pyfloat option" where
  "parse_unsigned s =
     (let w = map lower s
      in if w = ''inf'' \<or> w = ''infinity'' then Some PInf
         else if w = ''nan'' then Some NaN
         else parse_decimal s)"

fun float_neg :: "pyfloat \<Rightarrow> pyfloat" where
  "float_neg (Fin q) = Fin (- q)"
| "float_neg PInf = NInf"
| "float_neg NInf = PInf"
| "float_neg NaN = NaN"

definition ascii_float :: "string \<Rightarrow> pyfloat option" where
  "ascii_float s =
     (case drop_underscores None s of
        None \<Rightarrow> None
      | Some t \<Rightarrow>
          (case strip t of
             [] \<Rightarrow> None
           | c # r \<Rightarrow>
               if c = CHR ''-'' then map_option float_neg (parse_unsigned r)
               else if c = CHR ''+'' then parse_unsigned r
               else parse_unsigned (c # r)))"

text \<open>
  \<^verbatim>\<open>repr\<close> of \<^verbatim>\<open>None\<close>, a boolean, an integer and a text without quotes or escapes. The
  text of a float, a list or a dict is not modelled: it is empty here, and no
  evaluation below reaches it.
\<close>

fun digits_of_nat :: "nat \<Rightarrow> string" where
  "digits_of_nat n =
     (if n < 10 then [char_of (48 + n)]
      else digits_of_nat (n div 10) @ [char_of (48 + n mod 10)])"

declare digits_of_nat.simps [simp del]

fun repr_plain :: "json \<Rightarrow> string" where
  "repr_plain JNull = ''None''"
| "repr_plain (JBool b) = (if b then ''True'' else ''False'')"
| "repr_plain (JInt n) = (if n < 0 then CHR ''-'' # digits_of_nat (nat (- n)) else digits_of_nat (nat n))"
| "repr_plain (JStr s) = quoted s"
| "repr_plain _ = []"

definition runtime :: pylib where
  "runtime = \<lparr>float_of_str = ascii_float, repr_of = repr_plain, num_to_str = (\<lambda>v. None)\<rparr>"

section \<open>Inputs of the scenarios\<close>

text \<open>
  A request, and the outside worlds it is run in: one where the document is fetched
  and the model returns a given tree, one where the fetch ends in a 404, and one
  where the model's answer is not JSON.
\<close>

definition bill_request :: DocumentRequest where
  "bill_request = \<lparr>document = ''https://example.com/bill.png''\<rparr>"

definition world_of :: "json \<Rightarrow> unit world" where
  "world_of raw = \<lparr>fetch = (\<lambda>url. Inr ()), generate = (\<lambda>img. Inr raw)\<rparr>"

definition world_404 :: "unit world" where
  "world_404 =
     \<lparr>fetch = (\<lambda>url. Inl (''404 Client Error: Not Found for url: '' @ url)),
      generate = (\<lambda>img. Inr (JObj []))\<rparr>"

definition world_not_json :: "unit world" where
  "world_not_json =
     \<lparr>fetch = (\<lambda>url. Inr ()),
      generate = (\<lambda>img. Inl ''Expecting value: line 1 column 1 (char 0)'')\<rparr>"

text \<open>One page with one item, as the tree \<^verbatim>\<open>{"pagewise_line_items": [{"page_no": p,
  "bill_items": [item]}]}\<close>.\<close>

definition one_item_tree :: "json \<Rightarrow> json" where
  "one_item_tree item =
     JObj [(''pagewise_line_items'',
            JList [JObj [(''page_no'', JStr ''1''), (''bill_items'', JList [item])]])]"

text \<open>Scenario A of the specification, and the same tree with totals added at every level.\<close>

definition paracetamol :: json where
  "paracetamol =
     JObj [(''item_name'', JStr ''Paracetamol''), (''item_amount'', JFloat (Fin 50)),
           (''item_rate'', JFloat (Fin 25)), (''item_quantity'', JInt 2)]"

definition scenario_A :: json where
  "scenario_A = one_item_tree paracetamol"


text \<open>Scenario B: an item with neither rate nor quantity.\<close>

definition bandage :: json where
  "bandage = JObj [(''item_name'', JStr ''Bandage''), (''item_amount'', JInt 10)]"

definition scenario_B :: json where
  "scenario_B = one_item_tree bandage"

text \<open>Items with a field that is present and unusable, and trees with a part that is not a list.\<close>

definition item_bad_amount :: json where
  "item_bad_amount = JObj [(''item_name'', JStr ''Syringe''), (''item_amount'', JStr ''abc'')]"

definition item_null_rate :: json where
  "item_null_rate =
     JObj [(''item_name'', JStr ''Syringe''), (''item_amount'', JFloat (Fin 12)),
           (''item_rate'', JNull), (''item_quantity'', JFloat (Fin 1))]"

definition item_bad_name :: json where
  "item_bad_name =
     JObj [(''item_name'', JList [JStr ''Gauze'']), (''item_amount'', JFloat (Fin 4))]"

definition tree_null_pages :: json where
  "tree_null_pages = JObj [(''pagewise_line_items'', JNull)]"


text \<open>An item whose amount is the binary64 number 0.125, half a cent above 0.12.\<close>

definition item_half_cent :: json where
  "item_half_cent =
     JObj [(''item_name'', JStr ''Swab''), (''item_amount'', JFloat (Fin (1 / 8))),
           (''item_rate'', JFloat (Fin (1 / 8))), (''item_quantity'', JFloat (Fin 1))]"

section \<open>Well-formed trees\<close>

text \<open>
  A tree of the shape the model is asked for: the root maps \<^verbatim>\<open>pagewise_line_items\<close> to
  a list of pages, a page has a text \<^verbatim>\<open>page_no\<close> and a list \<^verbatim>\<open>bill_items\<close>, and an item
  has a text name and three numbers. A number is a float, or an integer that
  binary64 holds exactly (at most \<open>2^53\<close> in magnitude).
\<close>

definition is_number :: "json option \<Rightarrow> bool" where
  "is_number v =
     (case v of
        Some (JFloat f) \<Rightarrow> True
      | Some (JInt n) \<Rightarrow> \<bar>n\<bar> \<le> 2 ^ 53
      | _ \<Rightarrow> False)"

definition is_text :: "json option \<Rightarrow> bool" where
  "is_text v = (case v of Some (JStr s) \<Rightarrow> True | _ \<Rightarrow> False)"

fun wf_item :: "json \<Rightarrow> bool" where
  "wf_item (JObj kvs) =
     (is_text (map_of kvs ''item_name'') \<and> is_number (map_of kvs ''item_amount'') \<and>
      is_number (map_of kvs ''item_rate'') \<and> is_number (map_of kvs ''item_quantity''))"
| "wf_item _ = False"

fun wf_page :: "json \<Rightarrow> bool" where
  "wf_page (JObj kvs) =
     (is_text (map_of kvs ''page_no'') \<and>
      (case map_of kvs ''bill_items'' of
         Some (JList items) \<Rightarrow> list_all wf_item items
       | _ \<Rightarrow> False))"
| "wf_page _ = False"

fun wf_raw :: "json \<Rightarrow> bool" where
  "wf_raw (JObj kvs) =
     (case map_of kvs ''pagewise_line_items'' of
        Some (JList pages) \<Rightarrow> list_all wf_page pages
      | _ \<Rightarrow> False)"
| "wf_raw _ = False"

text \<open>The values a well-formed tree gives, read off without any coercion or default.\<close>

definition text_at :: "(string \<times> json) list \<Rightarrow> string \<Rightarrow> string" where
  "text_at kvs k = (case map_of kvs k of Some (JStr s) \<Rightarrow> s | _ \<Rightarrow> [])"

definition number_at :: "(string \<times> json) list \<Rightarrow> string \<Rightarrow> pyfloat" where
  "number_at kvs k =
     (case map_of kvs k of
        Some (JFloat f) \<Rightarrow> f
      | Some (JInt n) \<Rightarrow> Fin (of_int n)
      | _ \<Rightarrow> Fin 0)"

fun given_item :: "json \<Rightarrow> BillItem" where
  "given_item (JObj kvs) =
     \<lparr>item_name = text_at kvs ''item_name'',
      item_amount = number_at kvs ''item_amount'',
      item_rate = Some (number_at kvs ''item_rate''),
      item_quantity = Some (number_at kvs ''item_quantity'')\<rparr>"
| "given_item _ = \<lparr>item_name = [], item_amount = Fin 0, item_rate = None, item_quantity = None\<rparr>"

fun given_page :: "json \<Rightarrow> PageLineItems" where
  "given_page (JObj kvs) =
     \<lparr>page_no = text_at kvs ''page_no'',
      bill_items =
        map given_item (case map_of kvs ''bill_items'' of Some (JList items) \<Rightarrow> items | _ \<Rightarrow> [])\<rparr>"
| "given_page _ = \<lparr>page_no = [], bill_items = []\<rparr>"

section \<open>Rounding to binary64\<close>

lemma round_half_even_of_int: "round_half_even (of_int n) = n"
  by (simp add: round_half_even_def)

lemma round_half_even_tie:
  "q = of_int k + 1 / 2 \<Longrightarrow> round_half_even q = (if even k then k else k + 1)"
proof -
  assume q: "q = of_int k + 1 / 2"
  have f: "\<lfloor>q\<rfloor> = k"
    unfolding q by (rule floor_unique) simp_all
  have r: "q - of_int k = 1 / 2"
    by (simp add: q)
  have "round_half_even q =
          (if q - of_int k < 1 / 2 then k
           else if 1 / 2 < q - of_int k then k + 1
           else if even k then k else k + 1)"
    by (simp only: round_half_even_def f Let_def)
  also have "\<dots> = (if even k then k else k + 1)"
    by (simp only: r) simp
  finally show ?thesis .
qed

lemma bit_length_le: "n < 2 ^ k \<Longrightarrow> bit_length n \<le> k"
proof (induction k arbitrary: n)
  case 0
  then show ?case by (simp add: bit_length.simps)
next
  case (Suc k)
  show ?case
  proof (cases "n = 0")
    case True
    then show ?thesis by (simp add: bit_length.simps)
  next
    case False
    from Suc.prems have "n div 2 < 2 ^ k" by simp
    then have "bit_length (n div 2) \<le> k" by (rule Suc.IH)
    with False show ?thesis by (subst bit_length.simps) simp
  qed
qed

lemma bit_length_1: "bit_length (Suc 0) = 1"
  by (simp add: bit_length.simps)

lemma pow2_pos: "0 < pow2 e"
  by (simp add: pow2_def)

lemma pow2_neg_mult: "e \<le> 0 \<Longrightarrow> pow2 e * 2 ^ nat (- e) = 1"
  by (simp add: pow2_def)

lemma ilog2_of_int_le:
  assumes "0 < n" "n \<le> 2 ^ 53"
  shows "ilog2 (of_int n) \<le> 53"
    and "ilog2 (of_int n) = 53 \<Longrightarrow> n = 2 ^ 53"
proof -
  have "nat n < 2 ^ 54" using assms by simp
  then have b: "bit_length (nat n) \<le> 54" by (rule bit_length_le)
  have q: "quotient_of (of_int n) = (n, 1)" by simp
  let ?d = "int (bit_length (nat n)) - 1"
  have d: "?d \<le> 53" using b by simp
  have il: "ilog2 (of_int n) = (if pow2 ?d \<le> of_int n then ?d else ?d - 1)"
    by (simp add: ilog2_def q bit_length_1 Let_def)
  show "ilog2 (of_int n) \<le> 53" using d by (simp add: il)
  show "n = 2 ^ 53" if "ilog2 (of_int n) = 53"
  proof -
    from that d have "?d = 53" and "pow2 ?d \<le> of_int n"
      by (auto simp: il split: if_splits)
    then have "(2::rat) ^ 53 \<le> of_int n" by (simp add: pow2_def)
    then have "(of_int (2 ^ 53) :: rat) \<le> of_int n" by simp
    then have "2 ^ 53 \<le> n" by (simp only: of_int_le_iff)
    with assms show ?thesis by simp
  qed
qed


lemma to_double_exact:
  assumes m: "q / pow2 (max (ilog2 \<bar>q\<bar> - 52) (- 1074)) = of_int m"
    and small: "\<bar>q\<bar> < 2 ^ 1024"
  shows "to_double q = Fin q"
proof (cases "q = 0")
  case True
  then show ?thesis by (simp add: to_double_def)
next
  case False
  let ?u = "max (ilog2 \<bar>q\<bar> - 52) (- 1074)"
  have "pow2 ?u \<noteq> 0" using pow2_pos [of ?u] by simp
  then have v: "of_int m * pow2 ?u = q"
    using m by (simp add: field_simps)
  have "round_half_even (q / pow2 ?u) = m"
    by (simp only: m round_half_even_of_int)
  then have "to_double q = (if 2 ^ 1024 \<le> \<bar>q\<bar> then (if 0 < q then PInf else NInf) else Fin q)"
    using False by (simp add: to_double_def Let_def v)
  with small show ?thesis by simp
qed

lemma to_double_of_int:
  assumes "\<bar>n\<bar> \<le> 2 ^ 53"
  shows "to_double (of_int n) = Fin (of_int n)"
proof (cases "n = 0")
  case True
  then show ?thesis by (simp add: to_double_def)
next
  case False
  let ?a = "\<bar>n\<bar>"
  let ?q = "of_int n :: rat"
  have a: "0 < ?a" "?a \<le> 2 ^ 53" using False assms by simp_all
  have absq: "\<bar>?q\<bar> = of_int ?a" by simp
  let ?e = "ilog2 (of_int ?a)"
  let ?u = "max (?e - 52) (- 1074)"
  have e: "?e \<le> 53" by (rule ilog2_of_int_le(1) [OF a])
  have "\<exists>m. ?q / pow2 ?u = of_int m"
  proof (cases "?u \<le> 0")
    case True
    then have "pow2 ?u * 2 ^ nat (- ?u) = 1" by (rule pow2_neg_mult)
    then have "?q / pow2 ?u = ?q * 2 ^ nat (- ?u)"
      using pow2_pos [of ?u] by (simp add: field_simps)
    also have "\<dots> = of_int (n * 2 ^ nat (- ?u))" by simp
    finally show ?thesis by blast
  next
    case False
    with e have e53: "?e = 53" by simp
    then have "?a = 2 ^ 53" by (rule ilog2_of_int_le(2) [OF a])
    then have n: "n = 2 ^ 53 \<or> n = - (2 ^ 53)" by (simp add: abs_if split: if_splits)
    have u: "?u = 1" using e53 by simp
    have p: "pow2 1 = 2" by (simp add: pow2_def)
    have h: "?q / pow2 ?u = ?q / 2" by (simp only: u p)
    from n show ?thesis
    proof
      assume "n = 2 ^ 53"
      then have "?q / 2 = of_int (2 ^ 52)" by simp
      with h show ?thesis by metis
    next
      assume "n = - (2 ^ 53)"
      then have "?q / 2 = of_int (- (2 ^ 52))" by simp
      with h show ?thesis by metis
    qed
  qed
  then obtain m where m: "?q / pow2 ?u = of_int m" by blast
  have "(of_int ?a :: rat) \<le> of_int (2 ^ 53)" using a(2) by (simp only: of_int_le_iff)
  then have small: "\<bar>?q\<bar> < 2 ^ 1024" by simp
  show ?thesis
    by (rule to_double_exact [where m = m]) (use m small in \<open>simp_all only: absq\<close>)
qed

lemma float_of_int_small: "\<bar>n\<bar> \<le> 2 ^ 53 \<Longrightarrow> float_of_int n = Inr (Fin (of_int n))"
  by (simp add: float_of_int_def to_double_of_int)

lemma py_round2_of_int: "\<bar>n\<bar> \<le> 2 ^ 53 \<Longrightarrow> py_round2 (Fin (of_int n)) = Fin (of_int n)"
proof -
  assume n: "\<bar>n\<bar> \<le> 2 ^ 53"
  have "(of_int n :: rat) * 100 = of_int (n * 100)" by simp
  then have "round_half_even (of_int n * 100) = n * 100"
    by (simp only: round_half_even_of_int)
  then show ?thesis
    using n by (simp add: py_round2_def to_double_of_int)
qed

section \<open>The loops and their accumulators\<close>

lemma item_loop_eq:
  "item_loop L items (p, a) =
     (case sanitize_items L items of Inl e \<Rightarrow> Inl e | Inr bs \<Rightarrow> Inr (p @ bs, a @ bs))"
  by (induction items arbitrary: p a) (simp_all split: sum.splits)

lemma page_loop_eq:
  "page_loop L pages (a, pw) =
     (case sanitize_pages L pages of
        Inl e \<Rightarrow> Inl e
      | Inr ps \<Rightarrow> Inr (a @ concat (map bill_items ps), pw @ ps))"
proof (induction pages arbitrary: a pw)
  case Nil
  show ?case by simp
next
  case (Cons page rest)
  show ?case
    by (simp add: Cons.IH sanitize_page_def item_loop_eq split: sum.splits)
qed

lemma reconcile_eq:
  "reconcile L raw =
     (case dict_get raw ''pagewise_line_items'' (JList []) of
        Inl e \<Rightarrow> Inl e
      | Inr pl \<Rightarrow>
     (case py_iter pl of
        Inl e \<Rightarrow> Inl e
      | Inr pages \<Rightarrow>
     (case sanitize_pages L pages of
        Inl e \<Rightarrow> Inl e
      | Inr ps \<Rightarrow>
          Inr \<lparr>pagewise_line_items = ps,
               total_item_count = int (length (concat (map bill_items ps))),
               reconciled_amount = py_round2 (py_sum (map item_amount (concat (map bill_items ps))))\<rparr>)))"
  by (simp add: reconcile_def page_loop_eq Let_def split: sum.splits)

lemma reconcile_InrD:
  assumes "reconcile L raw = Inr d"
  shows "sanitize_pages L (raw_pages raw) = Inr (pagewise_line_items d)"
    and "total_item_count d = int (length (all_bill_items d))"
    and "reconciled_amount d = py_round2 (py_sum (map item_amount (all_bill_items d)))"
  using assms
  by (auto simp: reconcile_eq raw_pages_def all_bill_items_def split: sum.splits)

lemma sanitize_items_append:
  "sanitize_items L (xs @ ys) =
     (case sanitize_items L xs of
        Inl e \<Rightarrow> Inl e
      | Inr bs \<Rightarrow> (case sanitize_items L ys of Inl e \<Rightarrow> Inl e | Inr cs \<Rightarrow> Inr (bs @ cs)))"
  by (induction xs) (simp_all split: sum.splits)

lemma sanitize_page_items:
  "sanitize_page L page = Inr p \<Longrightarrow> sanitize_items L (page_raw_items page) = Inr (bill_items p)"
  by (auto simp: sanitize_page_def page_raw_items_def split: sum.splits)

lemma sanitize_pages_items:
  "sanitize_pages L pages = Inr ps \<Longrightarrow>
   sanitize_items L (concat (map page_raw_items pages)) = Inr (concat (map bill_items ps))"
proof (induction pages arbitrary: ps)
  case Nil
  then show ?case by simp
next
  case (Cons page rest)
  then show ?case
    by (auto simp: sanitize_items_append sanitize_page_items split: sum.splits)
qed

lemma sanitize_items_length:
  "sanitize_items L items = Inr bs \<Longrightarrow> length bs = length items"
  by (induction items arbitrary: bs) (auto split: sum.splits)

lemma sanitize_items_all:
  "sanitize_items L items = Inr bs \<Longrightarrow> item \<in> set items \<Longrightarrow> \<exists>b. validated_item L item = Inr b"
  by (induction items arbitrary: bs) (auto split: sum.splits)

lemma sanitize_pages_lengths:
  "sanitize_pages L pages = Inr ps \<Longrightarrow>
   map (\<lambda>p. length (bill_items p)) ps = map (\<lambda>p. length (page_raw_items p)) pages"
proof (induction pages arbitrary: ps)
  case Nil
  then show ?case by simp
next
  case (Cons page rest)
  then show ?case
    by (auto split: sum.splits dest!: sanitize_page_items sanitize_items_length)
qed

lemma reconcile_items:
  "reconcile L raw = Inr d \<Longrightarrow> sanitize_items L (raw_items raw) = Inr (all_bill_items d)"
  by (simp add: raw_items_def all_bill_items_def sanitize_pages_items reconcile_InrD(1))

lemma success_data:
  "is_success (extract_bill_data L W request) =
     (\<exists>d. pipeline L W request = Inr d)"
  "pipeline L W request = Inr d \<Longrightarrow> data (extract_bill_data L W request) = Some d"
  by (auto simp: extract_bill_data_def split: sum.splits exn.splits)

lemma pipeline_reconcile:
  "fetch W (document request) = Inr img \<Longrightarrow> generate W img = Inr raw \<Longrightarrow>
   pipeline L W request = reconcile L raw"
  by (simp add: pipeline_def download_image_def get_gemini_extraction_def)

section \<open>Evaluation on whole numbers\<close>

lemma to_double_numeral:
  "to_double 0 = Fin 0" "to_double 1 = Fin 1"
  "numeral k \<le> (2 ^ 53 :: int) \<Longrightarrow> to_double (numeral k) = Fin (numeral k)"
  using to_double_of_int [of 0] to_double_of_int [of 1] to_double_of_int [of "numeral k"]
  by simp_all

lemma float_of_int_numeral:
  "float_of_int 0 = Inr (Fin 0)" "float_of_int 1 = Inr (Fin 1)"
  "numeral k \<le> (2 ^ 53 :: int) \<Longrightarrow> float_of_int (numeral k) = Inr (Fin (numeral k))"
  using float_of_int_small [of 0] float_of_int_small [of 1] float_of_int_small [of "numeral k"]
  by simp_all

lemma py_round2_numeral:
  "py_round2 (Fin 0) = Fin 0" "py_round2 (Fin 1) = Fin 1"
  "numeral k \<le> (2 ^ 53 :: int) \<Longrightarrow> py_round2 (Fin (numeral k)) = Fin (numeral k)"
  using py_round2_of_int [of 0] py_round2_of_int [of 1] py_round2_of_int [of "numeral k"]
  by simp_all

lemmas run_simps =
  reconcile_eq sanitize_page_def validated_item_def dict_get_def py_iter_def py_float_def
  py_str_def new_BillItem_def validate_str_def py_sum_def
  to_double_numeral float_of_int_numeral py_round2_numeral

section \<open>Exceptions and envelopes\<close>

lemma dict_get_Inl: "dict_get v k d = Inl e \<Longrightarrow> \<exists>cls msg. e = Exception cls msg \<and> msg \<noteq> []"
  by (auto simp: dict_get_def quoted_def split: json.splits)

lemma py_iter_Inl: "py_iter v = Inl e \<Longrightarrow> \<exists>cls msg. e = Exception cls msg \<and> msg \<noteq> []"
  by (auto simp: py_iter_def quoted_def split: json.splits)

lemma py_float_Inl: "py_float L v = Inl e \<Longrightarrow> \<exists>cls msg. e = Exception cls msg \<and> msg \<noteq> []"
  by (auto simp: py_float_def float_of_int_def quoted_def split: json.splits option.splits pyfloat.splits)

lemma new_BillItem_Inl:
  "new_BillItem L n a r q = Inl e \<Longrightarrow> \<exists>cls msg. e = Exception cls msg \<and> msg \<noteq> []"
  by (auto simp: new_BillItem_def split: option.splits)

lemma validated_item_Inl:
  "validated_item L item = Inl e \<Longrightarrow> \<exists>cls msg. e = Exception cls msg \<and> msg \<noteq> []"
  unfolding validated_item_def
  by (auto split: sum.splits dest: dict_get_Inl py_float_Inl new_BillItem_Inl)

lemma sanitize_items_Inl:
  "sanitize_items L items = Inl e \<Longrightarrow> \<exists>cls msg. e = Exception cls msg \<and> msg \<noteq> []"
  by (induction items) (auto split: sum.splits dest: validated_item_Inl)

lemma sanitize_page_Inl:
  "sanitize_page L page = Inl e \<Longrightarrow> \<exists>cls msg. e = Exception cls msg \<and> msg \<noteq> []"
  unfolding sanitize_page_def
  by (auto split: sum.splits dest: dict_get_Inl py_iter_Inl sanitize_items_Inl)

lemma sanitize_pages_Inl:
  "sanitize_pages L pages = Inl e \<Longrightarrow> \<exists>cls msg. e = Exception cls msg \<and> msg \<noteq> []"
  by (induction pages) (auto split: sum.splits dest: sanitize_page_Inl)

lemma reconcile_Inl:
  "reconcile L raw = Inl e \<Longrightarrow> \<exists>cls msg. e = Exception cls msg \<and> msg \<noteq> []"
  unfolding reconcile_eq
  by (auto split: sum.splits dest: dict_get_Inl py_iter_Inl sanitize_pages_Inl)

lemma pipeline_Inl:
  "pipeline L W request = Inl e \<Longrightarrow>
   (\<exists>code detail. e = HTTPException code detail \<and> detail \<noteq> []) \<or>
   (\<exists>cls msg. e = Exception cls msg \<and> msg \<noteq> [])"
  unfolding pipeline_def download_image_def get_gemini_extraction_def
  by (auto split: sum.splits dest: reconcile_Inl)

lemma failure_envelope:
  "pipeline L W request = Inl e \<Longrightarrow>
   \<exists>t. extract_bill_data L W request = \<lparr>is_success = False, data = None, error = Some t\<rparr> \<and> t \<noteq> []"
  by (frule pipeline_Inl) (auto simp: extract_bill_data_def)

lemma success_envelope:
  "pipeline L W request = Inr d \<Longrightarrow>
   extract_bill_data L W request = \<lparr>is_success = True, data = Some d, error = None\<rparr>"
  by (simp add: extract_bill_data_def)

lemma run_world_of:
  "pipeline L (world_of raw) request = reconcile L raw"
  by (simp add: pipeline_def download_image_def get_gemini_extraction_def world_of_def)

section \<open>The claims\<close>

subsection \<open>Evaluations and keys that are not read\<close>


lemma eval_scenario_B:
  "reconcile L scenario_B =
     Inr \<lparr>pagewise_line_items =
            [\<lparr>page_no = ''1'',
              bill_items = [\<lparr>item_name = ''Bandage'', item_amount = Fin 10,
                             item_rate = Some (Fin 0), item_quantity = Some (Fin 1)\<rparr>]\<rparr>],
          total_item_count = 1, reconciled_amount = Fin 10\<rparr>"
  by (simp add: scenario_B_def one_item_tree_def bandage_def run_simps)






lemma validated_item_no_fields:
  "validated_item L (JObj []) =
     Inr \<lparr>item_name = ''Unknown'', item_amount = Fin 0,
          item_rate = Some (Fin 0), item_quantity = Some (Fin 1)\<rparr>"
  by (simp add: run_simps)

lemma reconcile_counts:
  assumes "reconcile L raw = Inr d"
  shows "length (all_bill_items d) = length (raw_items raw)"
    and "map (\<lambda>p. length (bill_items p)) (pagewise_line_items d) =
         map (\<lambda>p. length (page_raw_items p)) (raw_pages raw)"
  using sanitize_items_length [OF reconcile_items [OF assms]]
    sanitize_pages_lengths [OF reconcile_InrD(1) [OF assms]]
  by simp_all

text \<open>
  C4. In a successful response the item count is the number of sanitized items of
  all pages, which is the number of items the raw tree holds, page by page; an item
  is kept when fields are missing, even all of them.
\<close>

theorem total_item_count_counts_every_item:
  "(fetch W (document request) = Inr img \<and> generate W img = Inr raw \<and>
    is_success (extract_bill_data L W request) \<longrightarrow>
      (\<exists>d. data (extract_bill_data L W request) = Some d \<and>
           total_item_count d = int (length (all_bill_items d)) \<and>
           length (all_bill_items d) = length (raw_items raw) \<and>
           map (\<lambda>p. length (bill_items p)) (pagewise_line_items d) =
             map (\<lambda>p. length (page_raw_items p)) (raw_pages raw))) \<and>
   validated_item L (JObj []) =
     Inr \<lparr>item_name = ''Unknown'', item_amount = Fin 0,
          item_rate = Some (Fin 0), item_quantity = Some (Fin 1)\<rparr>"
proof -
  have "\<exists>d. data (extract_bill_data L W request) = Some d \<and>
           total_item_count d = int (length (all_bill_items d)) \<and>
           length (all_bill_items d) = length (raw_items raw) \<and>
           map (\<lambda>p. length (bill_items p)) (pagewise_line_items d) =
             map (\<lambda>p. length (page_raw_items p)) (raw_pages raw)"
    if f: "fetch W (document request) = Inr img" and g: "generate W img = Inr raw"
      and s: "is_success (extract_bill_data L W request)"
  proof -
    from s obtain d where p: "pipeline L W request = Inr d"
      by (auto simp: success_data(1))
    then have r: "reconcile L raw = Inr d"
      by (simp add: pipeline_reconcile [OF f g])
    show ?thesis
      using success_data(2) [OF p] reconcile_InrD(2) [OF r] reconcile_counts [OF r]
      by blast
  qed
  then show ?thesis
    by (simp add: validated_item_no_fields)
qed

text \<open>Scenario B, whose only item lacks rate and quantity: one item in, one item counted.\<close>

theorem total_item_count_counts_every_item_witness:
  "is_success (extract_bill_data runtime (world_of scenario_B) bill_request) \<and>
   length (raw_items scenario_B) = 1 \<and>
   (\<exists>d. data (extract_bill_data runtime (world_of scenario_B) bill_request) = Some d \<and>
        total_item_count d = int (length (all_bill_items d)) \<and>
        length (all_bill_items d) = length (raw_items scenario_B) \<and>
        total_item_count d = 1)"
proof -
  let ?W = "world_of scenario_B"
  let ?r = "extract_bill_data runtime ?W bill_request"
  have f: "fetch ?W (document bill_request) = Inr ()"
    and g: "generate ?W () = Inr scenario_B"
    by (simp_all add: world_of_def)
  have "pipeline runtime ?W bill_request = reconcile runtime scenario_B"
    by (rule run_world_of)
  then have s: "is_success ?r"
    by (simp add: success_data(1) eval_scenario_B)
  have n: "length (raw_items scenario_B) = 1"
    by (simp add: raw_items_def raw_pages_def page_raw_items_def scenario_B_def
        one_item_tree_def dict_get_def py_iter_def)
  from total_item_count_counts_every_item [of ?W bill_request "()" scenario_B runtime] f g s
  obtain d where d: "data ?r = Some d" "total_item_count d = int (length (all_bill_items d))"
    "length (all_bill_items d) = length (raw_items scenario_B)"
    by blast
  from d(2,3) n have "total_item_count d = 1" by simp
  with s n d show ?thesis by blast
qed

text \<open>
  C5. Every envelope the endpoint returns has exactly one of data and error: data
  and no error when the flag is true, an error and no data when it is false.
\<close>

theorem envelope_has_data_or_error:
  "(is_success (extract_bill_data L W request) \<and>
      (\<exists>d. data (extract_bill_data L W request) = Some d) \<and>
      error (extract_bill_data L W request) = None) \<or>
   (\<not> is_success (extract_bill_data L W request) \<and>
      data (extract_bill_data L W request) = None \<and>
      (\<exists>t. error (extract_bill_data L W request) = Some t))"
proof (cases "pipeline L W request")
  case (Inl e)
  from failure_envelope [OF this] show ?thesis by auto
next
  case (Inr d)
  from success_envelope [OF this] show ?thesis by simp
qed

text \<open>Both kinds of envelope occur: Scenario A succeeds, a document that is not found fails.\<close>

theorem envelope_has_data_or_error_witness:
  "is_success (extract_bill_data runtime (world_of scenario_A) bill_request) \<and>
   (\<exists>d. data (extract_bill_data runtime (world_of scenario_A) bill_request) = Some d) \<and>
   error (extract_bill_data runtime (world_of scenario_A) bill_request) = None \<and>
   \<not> is_success (extract_bill_data runtime world_404 bill_request) \<and>
   data (extract_bill_data runtime world_404 bill_request) = None \<and>
   (\<exists>t. error (extract_bill_data runtime world_404 bill_request) = Some t)"
proof -
  have "pipeline runtime (world_of scenario_A) bill_request = reconcile runtime scenario_A"
    by (rule run_world_of)
  then have a: "is_success (extract_bill_data runtime (world_of scenario_A) bill_request)"
    by (simp add: success_data(1) scenario_A_def one_item_tree_def paracetamol_def run_simps)
  have b: "\<not> is_success (extract_bill_data runtime world_404 bill_request)"
    by (simp add: extract_bill_data_def pipeline_def download_image_def world_404_def)
  from a b envelope_has_data_or_error [of runtime "world_of scenario_A" bill_request]
    envelope_has_data_or_error [of runtime world_404 bill_request]
  show ?thesis by blast
qed

text \<open>
  C6. A failed fetch gives an envelope with the flag false and the error text
  \<^verbatim>\<open>Failed to download image: \<close> followed by the text of the failure; an exception of
  any other kind raised inside the pipeline gives the flag false and its own text,
  which is not empty. No failed request is left without an error text.
\<close>

theorem failures_end_in_error_envelopes:
  "(fetch W (document request) = Inl m \<longrightarrow>
      extract_bill_data L W request =
        \<lparr>is_success = False, data = None, error = Some (''Failed to download image: '' @ m)\<rparr>) \<and>
   (pipeline L W request = Inl (Exception cls msg) \<longrightarrow>
      extract_bill_data L W request = \<lparr>is_success = False, data = None, error = Some msg\<rparr> \<and>
      msg \<noteq> []) \<and>
   (\<not> is_success (extract_bill_data L W request) \<longrightarrow>
      (\<exists>t. extract_bill_data L W request = \<lparr>is_success = False, data = None, error = Some t\<rparr> \<and>
           t \<noteq> []))"
proof -
  have a: "extract_bill_data L W request =
        \<lparr>is_success = False, data = None, error = Some (''Failed to download image: '' @ m)\<rparr>"
    if "fetch W (document request) = Inl m"
    using that by (simp add: extract_bill_data_def pipeline_def download_image_def)
  have b: "extract_bill_data L W request = \<lparr>is_success = False, data = None, error = Some msg\<rparr> \<and>
      msg \<noteq> []"
    if "pipeline L W request = Inl (Exception cls msg)"
    using that pipeline_Inl [OF that] by (simp add: extract_bill_data_def)
  have c: "\<exists>t. extract_bill_data L W request = \<lparr>is_success = False, data = None, error = Some t\<rparr> \<and>
           t \<noteq> []"
    if n: "\<not> is_success (extract_bill_data L W request)"
  proof (cases "pipeline L W request")
    case (Inl e)
    then show ?thesis by (rule failure_envelope)
  next
    case (Inr d)
    with n show ?thesis by (simp add: success_data(1))
  qed
  from a b c show ?thesis by blast
qed

lemma eval_null_pages:
  "reconcile L tree_null_pages =
     Inl (Exception ''TypeError'' (quoted ''NoneType'' @ '' object is not iterable''))"
  by (simp add: tree_null_pages_def run_simps)

text \<open>
  An answer of the model that is not JSON, a document that answers 404, and a tree
  whose page list is null: the first two fail in the helper functions, the third with
  a \<^verbatim>\<open>TypeError\<close> that only the last handler catches.
\<close>

theorem failures_end_in_error_envelopes_witness:
  "extract_bill_data runtime world_not_json bill_request =
     \<lparr>is_success = False, data = None,
      error = Some ''Failed to process image with AI model.''\<rparr> \<and>
   fetch world_404 (document bill_request) =
     Inl ''404 Client Error: Not Found for url: https://example.com/bill.png'' \<and>
   extract_bill_data runtime world_404 bill_request =
     \<lparr>is_success = False, data = None,
      error = Some (''Failed to download image: ''
                    @ ''404 Client Error: Not Found for url: https://example.com/bill.png'')\<rparr> \<and>
   pipeline runtime (world_of tree_null_pages) bill_request =
     Inl (Exception ''TypeError'' (quoted ''NoneType'' @ '' object is not iterable'')) \<and>
   extract_bill_data runtime (world_of tree_null_pages) bill_request =
     \<lparr>is_success = False, data = None,
      error = Some (quoted ''NoneType'' @ '' object is not iterable'')\<rparr> \<and>
   quoted ''NoneType'' @ '' object is not iterable'' \<noteq> []"
proof -
  have f: "fetch world_404 (document bill_request) =
     Inl ''404 Client Error: Not Found for url: https://example.com/bill.png''"
    by (simp add: world_404_def bill_request_def)
  have p: "pipeline runtime (world_of tree_null_pages) bill_request =
     Inl (Exception ''TypeError'' (quoted ''NoneType'' @ '' object is not iterable''))"
    by (simp only: run_world_of eval_null_pages)
  have n: "\<not> is_success (extract_bill_data runtime world_not_json bill_request)"
    and j: "error (extract_bill_data runtime world_not_json bill_request) =
              Some ''Failed to process image with AI model.''"
    by (simp_all add: extract_bill_data_def pipeline_def download_image_def
        get_gemini_extraction_def world_not_json_def)
  from n failures_end_in_error_envelopes [of world_not_json bill_request _ runtime]
  obtain t where t: "extract_bill_data runtime world_not_json bill_request =
     \<lparr>is_success = False, data = None, error = Some t\<rparr>"
    by blast
  with j have "t = ''Failed to process image with AI model.''"
    by simp
  with t have "extract_bill_data runtime world_not_json bill_request =
     \<lparr>is_success = False, data = None,
      error = Some ''Failed to process image with AI model.''\<rparr>"
    by simp
  moreover from f p
    failures_end_in_error_envelopes [of world_404 bill_request
      "''404 Client Error: Not Found for url: https://example.com/bill.png''" runtime]
    failures_end_in_error_envelopes [of "world_of tree_null_pages" bill_request _ runtime
      "''TypeError''" "quoted ''NoneType'' @ '' object is not iterable''"]
  have "fetch world_404 (document bill_request) =
     Inl ''404 Client Error: Not Found for url: https://example.com/bill.png'' \<and>
   extract_bill_data runtime world_404 bill_request =
     \<lparr>is_success = False, data = None,
      error = Some (''Failed to download image: ''
                    @ ''404 Client Error: Not Found for url: https://example.com/bill.png'')\<rparr> \<and>
   pipeline runtime (world_of tree_null_pages) bill_request =
     Inl (Exception ''TypeError'' (quoted ''NoneType'' @ '' object is not iterable'')) \<and>
   extract_bill_data runtime (world_of tree_null_pages) bill_request =
     \<lparr>is_success = False, data = None,
      error = Some (quoted ''NoneType'' @ '' object is not iterable'')\<rparr> \<and>
   quoted ''NoneType'' @ '' object is not iterable'' \<noteq> []"
    by blast
  ultimately show ?thesis by (rule conjI)
qed




lemma to_double_eighth: "to_double (1 / 8) = Fin (1 / 8)"
  by code_simp

lemma to_double_12_cents: "to_double (3 / 25) = Fin (1080863910568919 / 9007199254740992)"
  by code_simp

lemma eval_half_cent:
  "reconcile L (one_item_tree item_half_cent) =
     Inr \<lparr>pagewise_line_items =
            [\<lparr>page_no = ''1'',
              bill_items = [\<lparr>item_name = ''Swab'', item_amount = Fin (1 / 8),
                             item_rate = Some (Fin (1 / 8)), item_quantity = Some (Fin 1)\<rparr>]\<rparr>],
          total_item_count = 1, reconciled_amount = py_round2 (Fin (1 / 8))\<rparr>"
  by (simp add: one_item_tree_def item_half_cent_def run_simps to_double_eighth)

text \<open>
  C9. The rounding is round-half-to-even: when the sum of the amounts lies exactly
  half-way between two multiples of 0.01, \<open>k/100\<close> and \<open>(k+1)/100\<close>, the reconciled
  amount is the binary64 number nearest to the one of the two with an even numerator.
\<close>

theorem reconciled_amount_rounds_half_to_even:
  assumes "reconcile L raw = Inr d"
    and "py_sum (map item_amount (all_bill_items d)) = Fin q"
    and "q * 100 = of_int k + 1 / 2"
  shows "reconciled_amount d = to_double (of_int (if even k then k else k + 1) / 100)"
proof -
  have "reconciled_amount d = py_round2 (Fin q)"
    using reconcile_InrD(3) [OF assms(1)] assms(2) by simp
  also have "\<dots> = to_double (of_int (round_half_even (q * 100)) / 100)"
    by (simp add: py_round2_def)
  also have "round_half_even (q * 100) = (if even k then k else k + 1)"
    using assms(3) by (rule round_half_even_tie)
  finally show ?thesis .
qed

text \<open>One item of 0.125: the amount is 0.12, not 0.13.\<close>

theorem reconciled_amount_rounds_half_to_even_witness:
  "reconcile runtime (one_item_tree item_half_cent) =
     Inr \<lparr>pagewise_line_items =
            [\<lparr>page_no = ''1'',
              bill_items = [\<lparr>item_name = ''Swab'', item_amount = Fin (1 / 8),
                             item_rate = Some (Fin (1 / 8)), item_quantity = Some (Fin 1)\<rparr>]\<rparr>],
          total_item_count = 1,
          reconciled_amount = Fin (1080863910568919 / 9007199254740992)\<rparr> \<and>
   py_sum [Fin (1 / 8)] = Fin (1 / 8) \<and>
   (1 / 8 :: rat) * 100 = of_int 12 + 1 / 2 \<and>
   to_double (12 / 100) = Fin (1080863910568919 / 9007199254740992)"
proof -
  let ?d = "\<lparr>pagewise_line_items =
            [\<lparr>page_no = ''1'',
              bill_items = [\<lparr>item_name = ''Swab'', item_amount = Fin (1 / 8),
                             item_rate = Some (Fin (1 / 8)), item_quantity = Some (Fin 1)\<rparr>]\<rparr>],
          total_item_count = 1, reconciled_amount = py_round2 (Fin (1 / 8))\<rparr>"
  have r: "reconcile runtime (one_item_tree item_half_cent) = Inr ?d"
    by (rule eval_half_cent)
  have s: "py_sum (map item_amount (all_bill_items ?d)) = Fin (1 / 8)"
    by (simp add: all_bill_items_def py_sum_def to_double_eighth)
  have t: "(1 / 8 :: rat) * 100 = of_int 12 + 1 / 2"
    by simp
  have "reconciled_amount ?d = to_double (of_int (if even (12::int) then 12 else 12 + 1) / 100)"
    using r s t by (rule reconciled_amount_rounds_half_to_even)
  then have v: "py_round2 (Fin (1 / 8)) = Fin (1080863910568919 / 9007199254740992)"
    by (simp add: to_double_12_cents)
  have s': "py_sum [Fin (1 / 8)] = Fin (1 / 8)"
    by (simp add: py_sum_def to_double_eighth)
  show ?thesis
    using r v s' t to_double_12_cents by simp
qed

lemma validated_item_null:
  assumes "k \<in> {''item_name'', ''item_amount'', ''item_rate'', ''item_quantity''}"
    and "map_of kvs k = Some JNull"
  shows "\<exists>e. validated_item L (JObj kvs) = Inl e"
  using assms
  by (auto simp: validated_item_def dict_get_def py_float_def new_BillItem_def validate_str_def
      split: sum.splits)

lemma reconcile_every_item:
  "reconcile L raw = Inr d \<Longrightarrow> item \<in> set (raw_items raw) \<Longrightarrow> \<exists>b. validated_item L item = Inr b"
  by (rule sanitize_items_all [OF reconcile_items])

lemma raw_item_fails:
  assumes f: "fetch W (document request) = Inr img" and g: "generate W img = Inr raw"
    and i: "item \<in> set (raw_items raw)" and v: "validated_item L item = Inl e"
  shows "\<exists>t. extract_bill_data L W request = \<lparr>is_success = False, data = None, error = Some t\<rparr> \<and> t \<noteq> []"
proof (cases "pipeline L W request")
  case (Inl e')
  then show ?thesis by (rule failure_envelope)
next
  case (Inr d)
  then have "reconcile L raw = Inr d"
    by (simp add: pipeline_reconcile [OF f g])
  from reconcile_every_item [OF this i] v show ?thesis by auto
qed

text \<open>
  C10. A tree with an item in which one of the four keys is bound to null ends in an
  envelope with the flag false, whatever else the tree holds: \<^verbatim>\<open>float(None)\<close> raises a
  \<^verbatim>\<open>TypeError\<close>, a null name fails the validation of the model, and the item is never
  built. (The default is for an absent key only.)
\<close>

theorem null_field_fails_request:
  assumes "fetch W (document request) = Inr img"
    and "generate W img = Inr raw"
    and "JObj kvs \<in> set (raw_items raw)"
    and "k \<in> {''item_name'', ''item_amount'', ''item_rate'', ''item_quantity''}"
    and "map_of kvs k = Some JNull"
  shows "(\<exists>t. extract_bill_data L W request =
               \<lparr>is_success = False, data = None, error = Some t\<rparr> \<and> t \<noteq> []) \<and>
         (\<exists>cls msg. validated_item L (JObj kvs) = Inl (Exception cls msg)) \<and>
         py_float L JNull =
           Inl (Exception ''TypeError''
                  (''float() argument must be a string or a real number, not ''
                   @ quoted ''NoneType'')) \<and>
         validate_str L JNull = None"
proof -
  from validated_item_null [OF assms(4,5)] obtain e where e: "validated_item L (JObj kvs) = Inl e"
    by blast
  from validated_item_Inl [OF e] have "\<exists>cls msg. validated_item L (JObj kvs) = Inl (Exception cls msg)"
    using e by auto
  moreover note raw_item_fails [OF assms(1,2,3) e]
  ultimately show ?thesis
    by (simp add: py_float_def validate_str_def)
qed

text \<open>An item whose rate is null, all else in order.\<close>

theorem null_field_fails_request_witness:
  "fetch (world_of (one_item_tree item_null_rate)) (document bill_request) = Inr () \<and>
   generate (world_of (one_item_tree item_null_rate)) () = Inr (one_item_tree item_null_rate) \<and>
   item_null_rate \<in> set (raw_items (one_item_tree item_null_rate)) \<and>
   map_of [(''item_name'', JStr ''Syringe''), (''item_amount'', JFloat (Fin 12)),
           (''item_rate'', JNull), (''item_quantity'', JFloat (Fin 1))] ''item_rate'' = Some JNull \<and>
   extract_bill_data runtime (world_of (one_item_tree item_null_rate)) bill_request =
     \<lparr>is_success = False, data = None,
      error = Some (''float() argument must be a string or a real number, not ''
                    @ quoted ''NoneType'')\<rparr>"
proof -
  let ?t = "one_item_tree item_null_rate"
  let ?kvs = "[(''item_name'', JStr ''Syringe''), (''item_amount'', JFloat (Fin 12)),
           (''item_rate'', JNull), (''item_quantity'', JFloat (Fin 1))]"
  have f: "fetch (world_of ?t) (document bill_request) = Inr ()"
    and g: "generate (world_of ?t) () = Inr ?t"
    by (simp_all add: world_of_def)
  have i: "JObj ?kvs \<in> set (raw_items ?t)"
    by (simp add: raw_items_def raw_pages_def page_raw_items_def one_item_tree_def
        item_null_rate_def dict_get_def py_iter_def)
  have k: "''item_rate'' \<in> {''item_name'', ''item_amount'', ''item_rate'', ''item_quantity''}"
    by simp
  have m: "map_of ?kvs ''item_rate'' = Some JNull"
    by simp
  have e: "pipeline runtime (world_of ?t) bill_request =
     Inl (Exception ''TypeError''
            (''float() argument must be a string or a real number, not '' @ quoted ''NoneType''))"
    by (simp add: run_world_of one_item_tree_def item_null_rate_def run_simps)
  from null_field_fails_request [OF f g i k m, of runtime]
  obtain t where "extract_bill_data runtime (world_of ?t) bill_request =
               \<lparr>is_success = False, data = None, error = Some t\<rparr>"
    by blast
  moreover have "error (extract_bill_data runtime (world_of ?t) bill_request) =
      Some (''float() argument must be a string or a real number, not '' @ quoted ''NoneType'')"
    using e by (simp add: extract_bill_data_def)
  ultimately show ?thesis
    using f g i m by (simp add: item_null_rate_def)
qed

lemma number_field:
  "is_number (map_of kvs k) \<Longrightarrow>
   py_float L (case map_of kvs k of None \<Rightarrow> d | Some x \<Rightarrow> x) = Inr (number_at kvs k)"
  by (auto simp: is_number_def number_at_def py_float_def float_of_int_small
      split: option.splits json.splits)

lemma text_field:
  "is_text (map_of kvs k) \<Longrightarrow>
   (case map_of kvs k of None \<Rightarrow> d | Some x \<Rightarrow> x) = JStr (text_at kvs k)"
  by (auto simp: is_text_def text_at_def split: option.splits json.splits)

lemma validated_item_wf:
  "wf_item item \<Longrightarrow> validated_item L item = Inr (given_item item)"
proof (cases item)
  case (JObj kvs)
  assume "wf_item item"
  with JObj show ?thesis
    by (simp add: validated_item_def dict_get_def number_field text_field new_BillItem_def
        validate_str_def)
qed simp_all

lemma sanitize_items_wf:
  "list_all wf_item items \<Longrightarrow> sanitize_items L items = Inr (map given_item items)"
  by (induction items) (simp_all add: validated_item_wf)

lemma items_field:
  "(case map_of kvs ''bill_items'' of Some (JList items) \<Rightarrow> list_all wf_item items | _ \<Rightarrow> False) \<Longrightarrow>
   \<exists>items. map_of kvs ''bill_items'' = Some (JList items) \<and> list_all wf_item items"
  by (auto split: option.splits json.splits)

lemma sanitize_page_wf:
  "wf_page page \<Longrightarrow> sanitize_page L page = Inr (given_page page)"
proof (cases page)
  case (JObj kvs)
  assume "wf_page page"
  with JObj have t: "is_text (map_of kvs ''page_no'')"
    and "\<exists>items. map_of kvs ''bill_items'' = Some (JList items) \<and> list_all wf_item items"
    by (simp_all add: items_field)
  then obtain items where i: "map_of kvs ''bill_items'' = Some (JList items)" "list_all wf_item items"
    by blast
  show ?thesis
    by (simp add: JObj sanitize_page_def dict_get_def py_iter_def py_str_def i
        sanitize_items_wf text_field [OF t])
qed simp_all

lemma sanitize_pages_wf:
  "list_all wf_page pages \<Longrightarrow> sanitize_pages L pages = Inr (map given_page pages)"
  by (induction pages) (simp_all add: sanitize_page_wf)

lemma reconcile_wf:
  assumes "wf_raw raw"
  shows "\<exists>d. reconcile L raw = Inr d \<and> pagewise_line_items d = map given_page (raw_pages raw)"
proof (cases raw)
  case (JObj kvs)
  with assms obtain pages where
    p: "map_of kvs ''pagewise_line_items'' = Some (JList pages)" "list_all wf_page pages"
    by (auto split: option.splits json.splits)
  show ?thesis
    by (simp add: JObj reconcile_eq raw_pages_def dict_get_def py_iter_def p sanitize_pages_wf)
qed (use assms in simp_all)

text \<open>
  C8. For a well-formed tree the request succeeds and the pages of the response are
  the pages of the tree, in their order, each with its own page number and its own
  items in their order, every item with the name and the three numbers the tree
  gives it.
\<close>

theorem wellformed_tree_is_returned_unchanged:
  assumes "fetch W (document request) = Inr img"
    and "generate W img = Inr raw"
    and "wf_raw raw"
  shows "\<exists>d. extract_bill_data L W request = \<lparr>is_success = True, data = Some d, error = None\<rparr> \<and>
             pagewise_line_items d = map given_page (raw_pages raw)"
proof -
  from reconcile_wf [OF assms(3)] obtain d where
    d: "reconcile L raw = Inr d" "pagewise_line_items d = map given_page (raw_pages raw)"
    by blast
  from d(1) have "pipeline L W request = Inr d"
    by (simp add: pipeline_reconcile [OF assms(1,2)])
  from success_envelope [OF this] d(2) show ?thesis by blast
qed

text \<open>Scenario A of the specification.\<close>

theorem wellformed_tree_is_returned_unchanged_witness:
  "fetch (world_of scenario_A) (document bill_request) = Inr () \<and>
   generate (world_of scenario_A) () = Inr scenario_A \<and>
   wf_raw scenario_A \<and>
   (\<exists>d. extract_bill_data runtime (world_of scenario_A) bill_request =
          \<lparr>is_success = True, data = Some d, error = None\<rparr> \<and>
        pagewise_line_items d =
          [\<lparr>page_no = ''1'',
            bill_items = [\<lparr>item_name = ''Paracetamol'', item_amount = Fin 50,
                           item_rate = Some (Fin 25), item_quantity = Some (Fin 2)\<rparr>]\<rparr>])"
proof -
  have f: "fetch (world_of scenario_A) (document bill_request) = Inr ()"
    and g: "generate (world_of scenario_A) () = Inr scenario_A"
    by (simp_all add: world_of_def)
  have w: "wf_raw scenario_A"
    by (simp add: scenario_A_def one_item_tree_def paracetamol_def is_text_def is_number_def)
  have p: "map given_page (raw_pages scenario_A) =
          [\<lparr>page_no = ''1'',
            bill_items = [\<lparr>item_name = ''Paracetamol'', item_amount = Fin 50,
                           item_rate = Some (Fin 25), item_quantity = Some (Fin 2)\<rparr>]\<rparr>]"
    by (simp add: scenario_A_def one_item_tree_def paracetamol_def raw_pages_def dict_get_def
        py_iter_def text_at_def number_at_def)
  from wellformed_tree_is_returned_unchanged [OF f g w, of runtime] f g w p
  show ?thesis by simp
qed

lemma ascii_float_abc: "ascii_float ''abc'' = None"
  by (simp add: ascii_float_def strip_def is_space_def is_digit_def parse_unsigned_def
      parse_decimal_def lower_def Let_def)

lemma eval_bad_amount:
  "reconcile runtime (one_item_tree item_bad_amount) =
     Inl (Exception ''ValueError'' (''could not convert string to float: '' @ quoted ''abc''))"
  by (simp add: one_item_tree_def item_bad_amount_def run_simps runtime_def ascii_float_abc)

lemma validated_item_absent:
  assumes "map_of kvs k = None"
  shows "k = ''item_name'' \<Longrightarrow>
           validated_item L (JObj kvs) = validated_item L (JObj ((k, JStr ''Unknown'') # kvs))"
    and "k = ''item_amount'' \<Longrightarrow>
           validated_item L (JObj kvs) = validated_item L (JObj ((k, JFloat (Fin 0)) # kvs))"
    and "k = ''item_rate'' \<Longrightarrow>
           validated_item L (JObj kvs) = validated_item L (JObj ((k, JFloat (Fin 0)) # kvs))"
    and "k = ''item_quantity'' \<Longrightarrow>
           validated_item L (JObj kvs) = validated_item L (JObj ((k, JFloat (Fin 1)) # kvs))"
  using assms
  by (simp_all add: validated_item_def dict_get_def py_float_def float_of_int_numeral
      cong: sum.case_cong)

lemma validated_item_bad_number:
  assumes "k \<in> {''item_amount'', ''item_rate'', ''item_quantity''}"
    and "map_of kvs k = Some v" and "py_float L v = Inl e"
  shows "\<exists>e'. validated_item L (JObj kvs) = Inl e'"
  using assms
  by (auto simp: validated_item_def dict_get_def split: sum.splits)

lemma validated_item_bad_name:
  assumes "map_of kvs ''item_name'' = Some v" and "validate_str L v = None"
  shows "\<exists>e'. validated_item L (JObj kvs) = Inl e'"
  using assms
  by (auto simp: validated_item_def dict_get_def new_BillItem_def split: sum.splits)

text \<open>
  C2, as the code has it. An absent key is sanitized as if it held its default
  (\<^verbatim>\<open>Unknown\<close>, 0.0, 0.0, 1.0), and the item is kept. A key that is present with a value
  that \<^verbatim>\<open>float()\<close> rejects (for a text: one that is not a number), or a name that the
  text field rejects, is not defaulted: the exception ends the request, and the
  envelope has the flag false and no data.
\<close>

theorem absent_fields_default_unusable_fields_fail:
  "(map_of kvs ''item_name'' = None \<longrightarrow>
      validated_item L (JObj kvs) =
        validated_item L (JObj ((''item_name'', JStr ''Unknown'') # kvs))) \<and>
   (map_of kvs ''item_amount'' = None \<longrightarrow>
      validated_item L (JObj kvs) =
        validated_item L (JObj ((''item_amount'', JFloat (Fin 0)) # kvs))) \<and>
   (map_of kvs ''item_rate'' = None \<longrightarrow>
      validated_item L (JObj kvs) =
        validated_item L (JObj ((''item_rate'', JFloat (Fin 0)) # kvs))) \<and>
   (map_of kvs ''item_quantity'' = None \<longrightarrow>
      validated_item L (JObj kvs) =
        validated_item L (JObj ((''item_quantity'', JFloat (Fin 1)) # kvs))) \<and>
   (float_of_str L s = None \<longrightarrow>
      py_float L (JStr s) =
        Inl (Exception ''ValueError''
               (''could not convert string to float: '' @ repr_of L (JStr s)))) \<and>
   (fetch W (document request) = Inr img \<and> generate W img = Inr raw \<and>
    JObj kvs \<in> set (raw_items raw) \<and>
    k \<in> {''item_amount'', ''item_rate'', ''item_quantity''} \<and>
    map_of kvs k = Some v \<and> py_float L v = Inl e \<longrightarrow>
      (\<exists>t. extract_bill_data L W request =
             \<lparr>is_success = False, data = None, error = Some t\<rparr> \<and> t \<noteq> [])) \<and>
   (fetch W (document request) = Inr img \<and> generate W img = Inr raw \<and>
    JObj kvs \<in> set (raw_items raw) \<and>
    map_of kvs ''item_name'' = Some v \<and> validate_str L v = None \<longrightarrow>
      (\<exists>t. extract_bill_data L W request =
             \<lparr>is_success = False, data = None, error = Some t\<rparr> \<and> t \<noteq> []))"
proof -
  have a: "\<exists>t. extract_bill_data L W request =
             \<lparr>is_success = False, data = None, error = Some t\<rparr> \<and> t \<noteq> []"
    if "fetch W (document request) = Inr img" "generate W img = Inr raw"
      "JObj kvs \<in> set (raw_items raw)"
      "k \<in> {''item_amount'', ''item_rate'', ''item_quantity''}"
      "map_of kvs k = Some v" "py_float L v = Inl e"
  proof -
    from validated_item_bad_number [OF that(4,5,6)] obtain e' where
      "validated_item L (JObj kvs) = Inl e'" by blast
    then show ?thesis by (rule raw_item_fails [OF that(1,2,3)])
  qed
  have b: "\<exists>t. extract_bill_data L W request =
             \<lparr>is_success = False, data = None, error = Some t\<rparr> \<and> t \<noteq> []"
    if "fetch W (document request) = Inr img" "generate W img = Inr raw"
      "JObj kvs \<in> set (raw_items raw)"
      "map_of kvs ''item_name'' = Some v" "validate_str L v = None"
  proof -
    from validated_item_bad_name [OF that(4,5)] obtain e' where
      "validated_item L (JObj kvs) = Inl e'" by blast
    then show ?thesis by (rule raw_item_fails [OF that(1,2,3)])
  qed
  have c: "py_float L (JStr s) =
        Inl (Exception ''ValueError''
               (''could not convert string to float: '' @ repr_of L (JStr s)))"
    if "float_of_str L s = None"
    using that by (simp add: py_float_def)
  show ?thesis
  proof (intro conjI impI)
    show "validated_item L (JObj kvs) =
        validated_item L (JObj ((''item_name'', JStr ''Unknown'') # kvs))"
      if "map_of kvs ''item_name'' = None"
      using that by (rule validated_item_absent(1)) simp
    show "validated_item L (JObj kvs) =
        validated_item L (JObj ((''item_amount'', JFloat (Fin 0)) # kvs))"
      if "map_of kvs ''item_amount'' = None"
      using that by (rule validated_item_absent(2)) simp
    show "validated_item L (JObj kvs) =
        validated_item L (JObj ((''item_rate'', JFloat (Fin 0)) # kvs))"
      if "map_of kvs ''item_rate'' = None"
      using that by (rule validated_item_absent(3)) simp
    show "validated_item L (JObj kvs) =
        validated_item L (JObj ((''item_quantity'', JFloat (Fin 1)) # kvs))"
      if "map_of kvs ''item_quantity'' = None"
      using that by (rule validated_item_absent(4)) simp
    show "py_float L (JStr s) =
        Inl (Exception ''ValueError''
               (''could not convert string to float: '' @ repr_of L (JStr s)))"
      if "float_of_str L s = None"
      using that by (rule c)
    show "\<exists>t. extract_bill_data L W request =
             \<lparr>is_success = False, data = None, error = Some t\<rparr> \<and> t \<noteq> []"
      if "fetch W (document request) = Inr img \<and> generate W img = Inr raw \<and>
          JObj kvs \<in> set (raw_items raw) \<and>
          k \<in> {''item_amount'', ''item_rate'', ''item_quantity''} \<and>
          map_of kvs k = Some v \<and> py_float L v = Inl e"
      using that a by simp
    show "\<exists>t. extract_bill_data L W request =
             \<lparr>is_success = False, data = None, error = Some t\<rparr> \<and> t \<noteq> []"
      if "fetch W (document request) = Inr img \<and> generate W img = Inr raw \<and>
          JObj kvs \<in> set (raw_items raw) \<and>
          map_of kvs ''item_name'' = Some v \<and> validate_str L v = None"
      using that b by simp
  qed
qed

text \<open>
  An item with no key at all is kept with the four defaults; an item whose amount is
  the text \<^verbatim>\<open>abc\<close>, and one whose name is a list, end the request.
\<close>

theorem absent_fields_default_unusable_fields_fail_witness:
  "validated_item runtime (JObj []) = validated_item runtime (JObj [(''item_name'', JStr ''Unknown'')]) \<and>
   validated_item runtime (JObj []) = validated_item runtime (JObj [(''item_amount'', JFloat (Fin 0))]) \<and>
   validated_item runtime (JObj []) = validated_item runtime (JObj [(''item_rate'', JFloat (Fin 0))]) \<and>
   validated_item runtime (JObj []) = validated_item runtime (JObj [(''item_quantity'', JFloat (Fin 1))]) \<and>
   validated_item runtime (JObj []) =
     Inr \<lparr>item_name = ''Unknown'', item_amount = Fin 0,
          item_rate = Some (Fin 0), item_quantity = Some (Fin 1)\<rparr> \<and>
   float_of_str runtime ''abc'' = None \<and>
   py_float runtime (JStr ''abc'') =
     Inl (Exception ''ValueError'' (''could not convert string to float: '' @ quoted ''abc'')) \<and>
   item_bad_amount \<in> set (raw_items (one_item_tree item_bad_amount)) \<and>
   (\<exists>t. extract_bill_data runtime (world_of (one_item_tree item_bad_amount)) bill_request =
          \<lparr>is_success = False, data = None, error = Some t\<rparr> \<and> t \<noteq> []) \<and>
   item_bad_name \<in> set (raw_items (one_item_tree item_bad_name)) \<and>
   validate_str runtime (JList [JStr ''Gauze'']) = None \<and>
   (\<exists>t. extract_bill_data runtime (world_of (one_item_tree item_bad_name)) bill_request =
          \<lparr>is_success = False, data = None, error = Some t\<rparr> \<and> t \<noteq> [])"
proof -
  let ?ka = "[(''item_name'', JStr ''Syringe''), (''item_amount'', JStr ''abc'')]"
  let ?kn = "[(''item_name'', JList [JStr ''Gauze'']), (''item_amount'', JFloat (Fin 4))]"
  let ?ta = "one_item_tree item_bad_amount"
  let ?tn = "one_item_tree item_bad_name"
  have s: "float_of_str runtime ''abc'' = None"
    by (simp add: runtime_def ascii_float_abc)
  have fa: "fetch (world_of ?ta) (document bill_request) = Inr ()"
    and ga: "generate (world_of ?ta) () = Inr ?ta"
    and fn: "fetch (world_of ?tn) (document bill_request) = Inr ()"
    and gn: "generate (world_of ?tn) () = Inr ?tn"
    by (simp_all add: world_of_def)
  have ia: "JObj ?ka \<in> set (raw_items ?ta)"
    by (simp add: raw_items_def raw_pages_def page_raw_items_def one_item_tree_def
        item_bad_amount_def dict_get_def py_iter_def)
  have "in": "JObj ?kn \<in> set (raw_items ?tn)"
    by (simp add: raw_items_def raw_pages_def page_raw_items_def one_item_tree_def
        item_bad_name_def dict_get_def py_iter_def)
  have ka: "''item_amount'' \<in> {''item_amount'', ''item_rate'', ''item_quantity''}"
    and ma: "map_of ?ka ''item_amount'' = Some (JStr ''abc'')"
    and mn: "map_of ?kn ''item_name'' = Some (JList [JStr ''Gauze''])"
    and vn: "validate_str runtime (JList [JStr ''Gauze'']) = None"
    by (simp_all add: validate_str_def)
  note t0 = absent_fields_default_unusable_fields_fail [of "[]" runtime "''abc''"]
  from t0 s have pa: "py_float runtime (JStr ''abc'') =
     Inl (Exception ''ValueError'' (''could not convert string to float: '' @ quoted ''abc''))"
    by (simp add: runtime_def)
  note ta = absent_fields_default_unusable_fields_fail
    [of ?ka runtime "''abc''" "world_of ?ta" bill_request "()" ?ta "''item_amount''" "JStr ''abc''"]
  from ta fa ga ia ka ma pa
  have ra: "\<exists>t. extract_bill_data runtime (world_of ?ta) bill_request =
          \<lparr>is_success = False, data = None, error = Some t\<rparr> \<and> t \<noteq> []"
    by blast
  note tn = absent_fields_default_unusable_fields_fail
    [of ?kn runtime "''abc''" "world_of ?tn" bill_request "()" ?tn _ "JList [JStr ''Gauze'']"]
  from tn fn gn "in" mn vn
  have rn: "\<exists>t. extract_bill_data runtime (world_of ?tn) bill_request =
          \<lparr>is_success = False, data = None, error = Some t\<rparr> \<and> t \<noteq> []"
    by blast
  have d:
    "validated_item runtime (JObj []) = validated_item runtime (JObj [(''item_name'', JStr ''Unknown'')])"
    "validated_item runtime (JObj []) = validated_item runtime (JObj [(''item_amount'', JFloat (Fin 0))])"
    "validated_item runtime (JObj []) = validated_item runtime (JObj [(''item_rate'', JFloat (Fin 0))])"
    "validated_item runtime (JObj []) = validated_item runtime (JObj [(''item_quantity'', JFloat (Fin 1))])"
    by (rule t0 [THEN conjunct1, THEN mp], simp,
        rule t0 [THEN conjunct2, THEN conjunct1, THEN mp], simp,
        rule t0 [THEN conjunct2, THEN conjunct2, THEN conjunct1, THEN mp], simp,
        rule t0 [THEN conjunct2, THEN conjunct2, THEN conjunct2, THEN conjunct1, THEN mp], simp)
  have i': "item_bad_amount \<in> set (raw_items ?ta)" "item_bad_name \<in> set (raw_items ?tn)"
    using ia "in" by (simp_all add: item_bad_amount_def item_bad_name_def)
  from d validated_item_no_fields [of runtime] s pa i' ra vn rn
  show ?thesis by (intro conjI)
qed

text \<open>
  The claim as the specification states it fails: an item whose amount is the text
  \<^verbatim>\<open>abc\<close> is not kept with the amount 0.0; the whole request fails with the text of the
  \<^verbatim>\<open>ValueError\<close>.
\<close>

theorem unparseable_amount_fails_request:
  "extract_bill_data runtime (world_of (one_item_tree item_bad_amount)) bill_request =
     \<lparr>is_success = False, data = None,
      error = Some (''could not convert string to float: '' @ quoted ''abc'')\<rparr>"
  by (simp add: extract_bill_data_def run_world_of eval_bad_amount)









end
